theory Spec2Isabelle
  imports Complex_Main "HOL-Library.Log_Nat"
begin

section \<open>Values of a request body\<close>

text \<open>
  The handlers of \<^verbatim>\<open>app.py\<close> read the parsed JSON body of a request. A Python
  \<^verbatim>\<open>float\<close> is a binary64 number: it is kept as the rational it denotes, next to the
  three values that denote no number (the sign of a zero is not kept). A JSON object is
  listed by its items in the order of its keys, keys distinct: two Python dicts are equal
  whatever their insertion order. A \<open>string\<close> lists the characters of a Python
  \<^verbatim>\<open>str\<close>.
\<close>

datatype pyfloat = Fin rat | PosInf | NegInf | NaN

datatype json =
    JNull
  | JBool bool
  | JInt int
  | JFloat pyfloat
  | JStr string
  | JArr "json list"
  | JObj "(string \<times> json) list"

text \<open>Python's truth value of a parsed body value, as \<^verbatim>\<open>not x\<close> tests it.\<close>

fun truthy :: "json \<Rightarrow> bool" where
  "truthy JNull = False"
| "truthy (JBool b) = b"
| "truthy (JInt i) = (i \<noteq> 0)"
| "truthy (JFloat f) = (f \<noteq> Fin 0)"
| "truthy (JStr s) = (s \<noteq> [])"
| "truthy (JArr xs) = (xs \<noteq> [])"
| "truthy (JObj kvs) = (kvs \<noteq> [])"

text \<open>
  \<^verbatim>\<open>data.get(key)\<close> on the body, a dict: \<^verbatim>\<open>None\<close> when the key is absent, which
  Python cannot tell from a key whose value is \<^verbatim>\<open>null\<close>.
\<close>

definition get :: "(string \<rightharpoonup> json) \<Rightarrow> string \<Rightarrow> json" where
  "get data key = (case data key of None \<Rightarrow> JNull | Some v \<Rightarrow> v)"

text \<open>
  The exceptions a handler leaves uncaught (Flask answers them with status 500), and the
  write error the server raises when a replacement would alter \<^verbatim>\<open>_id\<close>.
\<close>

datatype exn =
  TypeError | ValueError | KeyError | IndexError | OverflowError | ZeroDivisionError | WriteError

text \<open>
  Python's \<^verbatim>\<open>==\<close> on parsed values: \<^verbatim>\<open>True == 1 == 1.0\<close>, a NaN equals nothing,
  lists and dicts compare item by item.
\<close>

fun num :: "json \<Rightarrow> pyfloat option" where
  "num (JBool b) = Some (Fin (if b then 1 else 0))"
| "num (JInt i) = Some (Fin (of_int i))"
| "num (JFloat f) = Some f"
| "num _ = None"

fun py_eq :: "json \<Rightarrow> json \<Rightarrow> bool"
  and py_eq_list :: "json list \<Rightarrow> json list \<Rightarrow> bool"
  and py_eq_items :: "(string \<times> json) list \<Rightarrow> (string \<times> json) list \<Rightarrow> bool" where
  "py_eq JNull JNull = True"
| "py_eq (JStr s) (JStr t) = (s = t)"
| "py_eq (JArr xs) (JArr ys) = py_eq_list xs ys"
| "py_eq (JObj kvs) (JObj kvs') = py_eq_items kvs kvs'"
| "py_eq a b =
     (case (num a, num b) of (Some x, Some y) \<Rightarrow> x \<noteq> NaN \<and> x = y | _ \<Rightarrow> False)"
| "py_eq_list [] [] = True"
| "py_eq_list (x # xs) (y # ys) = (py_eq x y \<and> py_eq_list xs ys)"
| "py_eq_list _ _ = False"
| "py_eq_items [] [] = True"
| "py_eq_items ((k, v) # kvs) ((k', v') # kvs') =
     (k = k' \<and> py_eq v v' \<and> py_eq_items kvs kvs')"
| "py_eq_items _ _ = False"

text \<open>\<^verbatim>\<open>x in xs\<close> on a list read back from the database.\<close>

definition py_in :: "json \<Rightarrow> json list \<Rightarrow> bool" where
  "py_in x xs = list_ex (\<lambda>e. py_eq e x) xs"

fun no_nan :: "json \<Rightarrow> bool" where
  "no_nan (JFloat f) = (f \<noteq> NaN)"
| "no_nan (JArr xs) = list_all no_nan xs"
| "no_nan (JObj kvs) = list_all (\<lambda>kv. no_nan (snd kv)) kvs"
| "no_nan _ = True"

text \<open>
  What the driver can encode: BSON integers have at most 8 bytes, and a longer Python
  int makes \<^verbatim>\<open>insert_one\<close>, \<^verbatim>\<open>update_one\<close> and \<^verbatim>\<open>replace_one\<close> raise
  OverflowError before anything is sent. The other limits of the driver and the server
  (document size, nesting depth, key syntax) are not part of this model.
\<close>

fun bson_ok :: "json \<Rightarrow> bool" where
  "bson_ok (JInt i) = (- (2 ^ 63) \<le> i \<and> i < 2 ^ 63)"
| "bson_ok (JArr xs) = list_all bson_ok xs"
| "bson_ok (JObj kvs) = list_all (\<lambda>kv. bson_ok (snd kv)) kvs"
| "bson_ok _ = True"

text \<open>
  \<^verbatim>\<open>int(x)\<close>. On a string Python parses a decimal literal; \<open>int_of_str\<close> stands for
  that parser, \<open>None\<close> where it raises ValueError. A float is truncated towards zero.
\<close>

definition py_int :: "(string \<Rightarrow> int option) \<Rightarrow> json \<Rightarrow> exn + int" where
  "py_int int_of_str x =
    (case x of
       JInt i \<Rightarrow> Inr i
     | JBool b \<Rightarrow> Inr (if b then 1 else 0)
     | JFloat (Fin r) \<Rightarrow> Inr (if 0 \<le> r then \<lfloor>r\<rfloor> else \<lceil>r\<rceil>)
     | JFloat NaN \<Rightarrow> Inl ValueError
     | JFloat _ \<Rightarrow> Inl OverflowError
     | JStr s \<Rightarrow> (case int_of_str s of None \<Rightarrow> Inl ValueError | Some i \<Rightarrow> Inr i)
     | _ \<Rightarrow> Inl TypeError)"

text \<open>
  \<^verbatim>\<open>x[i]\<close> for an index \<open>i \<ge> 0\<close>: an element of a list, a one-character string of a
  string, IndexError past the end; a dict of string keys has no integer key; the other
  values are not subscriptable.
\<close>

definition getitem :: "json \<Rightarrow> nat \<Rightarrow> exn + json" where
  "getitem x i =
    (case x of
       JArr xs \<Rightarrow> if i < length xs then Inr (xs ! i) else Inl IndexError
     | JStr s \<Rightarrow> if i < length s then Inr (JStr [s ! i]) else Inl IndexError
     | JObj kvs \<Rightarrow> Inl KeyError
     | _ \<Rightarrow> Inl TypeError)"

section \<open>Float arithmetic\<close>

text \<open>
  The operations \<^verbatim>\<open>/students\<close> performs on floats, each the exact result rounded to
  the nearest binary64 number, ties to the even significand. \<open>ilog2 x\<close> is the exponent
  of the leading bit of a positive \<open>x\<close>; the significand has 53 bits, the spacing does
  not go below \<open>2 powi -1074\<close>, and a result of \<open>2 powi 1024\<close> or more overflows.
\<close>

definition round_half_even :: "rat \<Rightarrow> int" where
  "round_half_even x =
    (let f = \<lfloor>x\<rfloor>; r = x - of_int f
     in if r < 1 / 2 then f else if 1 / 2 < r then f + 1 else if even f then f else f + 1)"

definition ilog2 :: "rat \<Rightarrow> int" where
  "ilog2 x =
    (let d = bitlen (fst (quotient_of x)) - bitlen (snd (quotient_of x))
     in if 2 powi d \<le> x then d else d - 1)"

definition fl :: "rat \<Rightarrow> pyfloat" where
  "fl x =
    (if x = 0 then Fin 0
     else
       let e = max (ilog2 \<bar>x\<bar> - 52) (- 1074);
           y = of_int (round_half_even (x / 2 powi e)) * 2 powi e
       in if 2 powi 1024 \<le> \<bar>y\<bar> then (if 0 < x then PosInf else NegInf) else Fin y)"

text \<open>\<^verbatim>\<open>a / b\<close> on two ints: the quotient, correctly rounded.\<close>

definition py_truediv :: "int \<Rightarrow> int \<Rightarrow> exn + pyfloat" where
  "py_truediv a b =
    (if b = 0 then Inl ZeroDivisionError
     else (case fl (of_int a / of_int b) of Fin r \<Rightarrow> Inr (Fin r) | _ \<Rightarrow> Inl OverflowError))"

text \<open>\<^verbatim>\<open>x * y\<close> on two floats.\<close>

fun py_fmul :: "pyfloat \<Rightarrow> pyfloat \<Rightarrow> pyfloat" where
  "py_fmul (Fin x) (Fin y) = fl (x * y)"
| "py_fmul NaN _ = NaN"
| "py_fmul _ NaN = NaN"
| "py_fmul (Fin x) PosInf = (if x = 0 then NaN else if 0 < x then PosInf else NegInf)"
| "py_fmul (Fin x) NegInf = (if x = 0 then NaN else if 0 < x then NegInf else PosInf)"
| "py_fmul PosInf (Fin y) = (if y = 0 then NaN else if 0 < y then PosInf else NegInf)"
| "py_fmul NegInf (Fin y) = (if y = 0 then NaN else if 0 < y then NegInf else PosInf)"
| "py_fmul PosInf PosInf = PosInf"
| "py_fmul PosInf NegInf = NegInf"
| "py_fmul NegInf PosInf = NegInf"
| "py_fmul NegInf NegInf = PosInf"

text \<open>
  \<^verbatim>\<open>round(x, 2)\<close>: a float is rounded, ties to even, to two decimals of its exact
  value, and the decimal is read back as a float; an int is returned as it is.
\<close>

fun py_round2 :: "pyfloat \<Rightarrow> pyfloat" where
  "py_round2 (Fin x) = fl (of_int (round_half_even (x * 100)) / 100)"
| "py_round2 f = f"

definition py_round :: "json \<Rightarrow> exn + json" where
  "py_round x =
    (case x of
       JInt i \<Rightarrow> Inr (JInt i)
     | JBool b \<Rightarrow> Inr (JInt (if b then 1 else 0))
     | JFloat f \<Rightarrow> Inr (JFloat (py_round2 f))
     | _ \<Rightarrow> Inl TypeError)"

section \<open>Responses\<close>

text \<open>
  A handler returns \<^verbatim>\<open>jsonify(...), status\<close>. The bodies are the message objects
  \<^verbatim>\<open>{"msg": ...}\<close> (with a fixed text, or an f-string around the class number), the
  login object and the rows of \<^verbatim>\<open>/students\<close>.
\<close>

record student_data =
  sd_username :: string
  sd_name :: string
  sd_attendance :: json
  sd_class :: string
  sd_registerNumber :: string
  sd_mobileNumber :: string

datatype body =
    Msg string
  | MsgClass string json string
  | LoginOk string string string
  | Students "student_data list"
  | Attendance "json list"

type_synonym response = "body \<times> nat"

text \<open>What a handler does with a request: it raises, or it returns a response.\<close>

type_synonym outcome = "exn + response"

section \<open>The database\<close>

text \<open>
  A collection is the list of its documents in insertion order; \<^verbatim>\<open>find_one\<close> returns
  the first match. The fields of a user are strings, as the wire contract of
  \<^verbatim>\<open>/signup\<close> has them; \<open>password\<close> holds the bytes \<^verbatim>\<open>bcrypt.hashpw\<close> returned.
  The four student fields exist in the document only when signup wrote them.
\<close>

record student_details =
  class_label :: string
  registerNumber :: string
  mobileNumber :: string
  address :: string

record user =
  username :: string
  password :: string
  name :: string
  user_type :: string
  details :: "student_details option"

record attendance_doc =
  att_username :: string
  attendance :: "json list"

record quiz =
  question :: json
  options :: json
  correctAnswer :: json

record quiz_result =
  studentUsername :: json
  percentage :: json

text \<open>
  A timetable document is the object that was saved, under its \<^verbatim>\<open>_id\<close>: the one the
  object brought, or the ObjectId the driver generated for it.
\<close>

datatype doc_id = ObjectId nat | GivenId json

record timetable_doc =
  doc_id :: doc_id
  doc_fields :: "(string \<times> json) list"

record db =
  users :: "user list"
  attendance_coll :: "attendance_doc list"
  quizzes :: "quiz list"
  quiz_results :: "quiz_result list"
  timetable :: "timetable_doc list"

definition empty_db :: db where
  "empty_db = \<lparr>users = [], attendance_coll = [], quizzes = [], quiz_results = [],
     timetable = []\<rparr>"

text \<open>\<^verbatim>\<open>mongo.db.users.find_one({"username": username})\<close>\<close>

definition find_user :: "db \<Rightarrow> string \<Rightarrow> user option" where
  "find_user d uname = find (\<lambda>u. username u = uname) (users d)"

section \<open>Signup and login\<close>

text \<open>
  The bodies of \<^verbatim>\<open>/signup\<close> and \<^verbatim>\<open>/login\<close> are objects whose fields are strings:
  a required field is \<open>None\<close> when the key is absent or \<^verbatim>\<open>null\<close>, an optional
  student field when the key is absent. A body with a field of another JSON type is
  outside this typing.
\<close>

record signup_data =
  su_username :: "string option"
  su_password :: "string option"
  su_name :: "string option"
  su_type :: "string option"
  su_class :: "string option"
  su_registerNumber :: "string option"
  su_mobileNumber :: "string option"
  su_address :: "string option"

text \<open>\<^verbatim>\<open>not data.get(key)\<close> on a string field: absent, \<^verbatim>\<open>null\<close> or empty.\<close>

definition missing :: "string option \<Rightarrow> bool" where
  "missing v = (case v of None \<Rightarrow> True | Some s \<Rightarrow> s = [])"

text \<open>\<^verbatim>\<open>data.get(key, "")\<close>: the default stands in for an absent key only.\<close>

definition get_or_empty :: "string option \<Rightarrow> string" where
  "get_or_empty v = (case v of None \<Rightarrow> [] | Some s \<Rightarrow> s)"

text \<open>
  \<open>hashpw password salt\<close> stands for
  \<^verbatim>\<open>bcrypt.hashpw(password.encode("utf-8"), salt)\<close> and \<open>salt\<close> for the value
  \<^verbatim>\<open>bcrypt.gensalt()\<close> drew for this request.
\<close>

definition signup ::
  "(string \<Rightarrow> string \<Rightarrow> string) \<Rightarrow> string \<Rightarrow> signup_data \<Rightarrow> db \<Rightarrow> response \<times> db" where
  "signup hashpw salt data d =
    (if missing (su_username data) \<or> missing (su_password data)
        \<or> missing (su_name data) \<or> missing (su_type data)
     then ((Msg ''All fields (username, password, name, type) are required.'', 400), d)
     else
       let uname = the (su_username data);
           pw = the (su_password data);
           nm = the (su_name data);
           ty = the (su_type data)
       in if find_user d uname \<noteq> None
          then ((Msg ''Username already exists'', 400), d)
          else
            let hashed_password = hashpw pw salt;
                user_data = \<lparr>username = uname, password = hashed_password, name = nm,
                  user_type = ty,
                  details =
                    (if ty = ''Student''
                     then Some \<lparr>class_label = get_or_empty (su_class data),
                       registerNumber = get_or_empty (su_registerNumber data),
                       mobileNumber = get_or_empty (su_mobileNumber data),
                       address = get_or_empty (su_address data)\<rparr>
                     else None)\<rparr>
            in ((Msg ''User created successfully!'', 201),
                d\<lparr>users := users d @ [user_data]\<rparr>))"




definition ConflictError_username :: response where
  "ConflictError_username = (Msg ''Username already exists'', 400)"


text \<open>A run of signup requests, each with the salt drawn for it.\<close>

fun signups ::
  "(string \<Rightarrow> string \<Rightarrow> string) \<Rightarrow> (string \<times> signup_data) list \<Rightarrow> db \<Rightarrow> db" where
  "signups hashpw [] d = d"
| "signups hashpw ((salt, data) # rest) d = signups hashpw rest (snd (signup hashpw salt data d))"

text \<open>
  A stand-in for bcrypt to run the model on concrete inputs: the hash is a two-byte salt
  followed by the password, and the check compares what follows the salt.
\<close>

definition demo_hashpw :: "string \<Rightarrow> string \<Rightarrow> string" where
  "demo_hashpw pw salt = take 2 salt @ pw"



definition alice_signup :: signup_data where
  "alice_signup = \<lparr>su_username = Some ''alice'', su_password = Some ''s3cret'',
     su_name = Some ''Alice'', su_type = Some ''Student'', su_class = Some ''10A'',
     su_registerNumber = None, su_mobileNumber = None, su_address = None\<rparr>"

definition alice_db :: db where
  "alice_db = snd (signup demo_hashpw ''k7'' alice_signup empty_db)"

section \<open>Attendance\<close>

text \<open>
  \<^verbatim>\<open>mongo.db.users.find_one({"username": username, "type": "Student"})\<close> and
  \<^verbatim>\<open>mongo.db.attendance.find_one({"username": username})\<close>
\<close>

definition find_student :: "db \<Rightarrow> string \<Rightarrow> user option" where
  "find_student d uname =
     find (\<lambda>u. username u = uname \<and> user_type u = ''Student'') (users d)"

definition find_attendance :: "db \<Rightarrow> string \<Rightarrow> attendance_doc option" where
  "find_attendance d uname = find (\<lambda>a. att_username a = uname) (attendance_coll d)"

text \<open>
  \<^verbatim>\<open>update_one({"username": username}, {"$set": {"attendance": atts}})\<close>: the first
  matching document gets the new list.
\<close>

fun update_one :: "string \<Rightarrow> json list \<Rightarrow> attendance_doc list \<Rightarrow> attendance_doc list" where
  "update_one uname atts [] = []"
| "update_one uname atts (a # as) =
     (if att_username a = uname then a\<lparr>attendance := atts\<rparr> # as
      else a # update_one uname atts as)"

text \<open>
  \<open>uname\<close> is the identity \<^verbatim>\<open>get_jwt_identity()\<close> returns: the handler runs only
  behind \<^verbatim>\<open>@jwt_required()\<close>, which has answered a missing or invalid token before.
  What the collection holds came through the driver, so only the new class number can
  fail to encode.
\<close>

definition mark_attendance :: "string \<Rightarrow> (string \<rightharpoonup> json) \<Rightarrow> db \<Rightarrow> outcome \<times> db" where
  "mark_attendance uname data d =
    (let class_number = get data ''class_number'' in
     if \<not> truthy class_number
     then (Inr (Msg ''Class number is required.'', 400), d)
     else
       (case find_student d uname of
          None \<Rightarrow> (Inr (Msg ''Student not found.'', 404), d)
        | Some student \<Rightarrow>
            (case find_attendance d uname of
               Some student_attendance \<Rightarrow>
                 if py_in class_number (attendance student_attendance)
                 then (Inr (MsgClass ''Attendance for Class '' class_number
                              '' is already marked.'', 400), d)
                 else if \<not> bson_ok class_number then (Inl OverflowError, d)
                 else (Inr (MsgClass ''Attendance for Class '' class_number '' marked.'', 200),
                       d\<lparr>attendance_coll :=
                           update_one uname (attendance student_attendance @ [class_number])
                             (attendance_coll d)\<rparr>)
             | None \<Rightarrow>
                 if \<not> bson_ok class_number then (Inl OverflowError, d)
                 else (Inr (MsgClass ''Attendance for Class '' class_number '' marked.'', 200),
                       d\<lparr>attendance_coll := attendance_coll d
                           @ [\<lparr>att_username = uname, attendance = [class_number]\<rparr>]\<rparr>))))"

definition get_attendance :: "string \<Rightarrow> db \<Rightarrow> response" where
  "get_attendance uname d =
    (case find_attendance d uname of
       Some student_attendance \<Rightarrow> (Attendance (attendance student_attendance), 200)
     | None \<Rightarrow> (Attendance [], 404))"

text \<open>The sessions a user has marked, as \<^verbatim>\<open>/get-attendance\<close> reports them.\<close>

definition marked_sessions :: "db \<Rightarrow> string \<Rightarrow> json list" where
  "marked_sessions d uname = (case fst (get_attendance uname d) of Attendance xs \<Rightarrow> xs | _ \<Rightarrow> [])"



definition ConflictError_marked :: "json \<Rightarrow> outcome" where
  "ConflictError_marked class_number =
     Inr (MsgClass ''Attendance for Class '' class_number '' is already marked.'', 400)"

section \<open>The list of students\<close>

text \<open>
  One pass of the loop of \<^verbatim>\<open>get_students\<close>: the row of a student. The literal
  \<^verbatim>\<open>100\<close> becomes the float 100.0 in the product; \<^verbatim>\<open>student.get(key, "N/A")\<close>
  falls back on a document that signup wrote without the student fields.
\<close>

definition student_row :: "db \<Rightarrow> user \<Rightarrow> exn + student_data" where
  "student_row d student =
    (let student_attendance = find_attendance d (username student)
     in case (case student_attendance of
                None \<Rightarrow> Inr (JInt 0)
              | Some a \<Rightarrow>
                  (let attendance_count = int (length (attendance a))
                   in case py_truediv attendance_count 10 of
                        Inl e \<Rightarrow> Inl e
                      | Inr q \<Rightarrow> Inr (JFloat (py_fmul q (Fin 100))))) of
          Inl e \<Rightarrow> Inl e
        | Inr attendance_percentage \<Rightarrow>
            (case py_round attendance_percentage of
               Inl e \<Rightarrow> Inl e
             | Inr rounded \<Rightarrow>
                 Inr \<lparr>sd_username = username student, sd_name = name student,
                   sd_attendance = rounded,
                   sd_class =
                     (case details student of None \<Rightarrow> ''N/A'' | Some dt \<Rightarrow> class_label dt),
                   sd_registerNumber =
                     (case details student of None \<Rightarrow> ''N/A'' | Some dt \<Rightarrow> registerNumber dt),
                   sd_mobileNumber =
                     (case details student of None \<Rightarrow> ''N/A'' | Some dt \<Rightarrow> mobileNumber dt)\<rparr>))"

fun students_list :: "db \<Rightarrow> user list \<Rightarrow> exn + student_data list" where
  "students_list d [] = Inr []"
| "students_list d (student # students) =
     (case student_row d student of
        Inl e \<Rightarrow> Inl e
      | Inr student_data \<Rightarrow>
          (case students_list d students of
             Inl e \<Rightarrow> Inl e
           | Inr rows \<Rightarrow> Inr (student_data # rows)))"

definition get_students :: "db \<Rightarrow> outcome" where
  "get_students d =
    (case students_list d (filter (\<lambda>u. user_type u = ''Student'') (users d)) of
       Inl e \<Rightarrow> Inl e
     | Inr rows \<Rightarrow> Inr (Students rows, 200))"

text \<open>
  The percentage in the words of the specification, in exact arithmetic: the number of
  marked sessions over 10, times 100, rounded to two decimals; and 0 without a record.
\<close>

definition spec_percentage :: "nat \<Rightarrow> rat" where
  "spec_percentage n = of_int (round_half_even (of_nat n / 10 * 100 * 100)) / 100"

definition spec_attendance :: "attendance_doc option \<Rightarrow> json" where
  "spec_attendance student_attendance =
    (case student_attendance of
       None \<Rightarrow> JInt 0
     | Some a \<Rightarrow> JFloat (Fin (spec_percentage (length (attendance a)))))"

section \<open>Quizzes and quiz results\<close>

definition create_quiz ::
  "(string \<Rightarrow> int option) \<Rightarrow> (string \<rightharpoonup> json) \<Rightarrow> db \<Rightarrow> outcome \<times> db" where
  "create_quiz int_of_str data d =
    (if \<not> truthy (get data ''question'') \<or> \<not> truthy (get data ''options'')
        \<or> \<not> truthy (get data ''correctAnswer'')
     then (Inr (Msg ''Please provide all the fields: question, options, and correctAnswer.'',
                400), d)
     else
       let qn = get data ''question'';
           opts = get data ''options''
       in (case py_int int_of_str (get data ''correctAnswer'') of
             Inl ValueError \<Rightarrow> (Inr (Msg ''Correct answer must be a number.'', 400), d)
           | Inl e \<Rightarrow> (Inl e, d)
           | Inr correct_answer \<Rightarrow>
               if \<not> (1 \<le> correct_answer \<and> correct_answer \<le> 4)
               then (Inr (Msg ''Correct answer must be between 1 and 4.'', 400), d)
               else
                 (case getitem opts (nat (correct_answer - 1)) of
                    Inl e \<Rightarrow> (Inl e, d)
                  | Inr answer \<Rightarrow>
                      let qz = \<lparr>question = qn, options = opts, correctAnswer = answer\<rparr>
                      in if \<not> (bson_ok qn \<and> bson_ok opts \<and> bson_ok answer)
                         then (Inl OverflowError, d)
                         else (Inr (Msg ''Quiz created successfully!'', 201),
                               d\<lparr>quizzes := quizzes d @ [qz]\<rparr>))))"

definition save_quiz_result :: "(string \<rightharpoonup> json) \<Rightarrow> db \<Rightarrow> outcome \<times> db" where
  "save_quiz_result data d =
    (let student_username = get data ''studentUsername'';
         pct = get data ''percentage''
     in if \<not> truthy student_username \<or> \<not> truthy pct
        then (Inr (Msg ''Student username and percentage are required.'', 400), d)
        else
          let result = \<lparr>studentUsername = student_username, percentage = pct\<rparr>
          in if \<not> (bson_ok student_username \<and> bson_ok pct) then (Inl OverflowError, d)
             else (Inr (Msg ''Quiz result saved successfully!'', 201),
                   d\<lparr>quiz_results := quiz_results d @ [result]\<rparr>))"

definition ValidationError_quiz_result :: outcome where
  "ValidationError_quiz_result =
     Inr (Msg ''Student username and percentage are required.'', 400)"

section \<open>The timetable\<close>

text \<open>
  The body of \<^verbatim>\<open>/save-timetable\<close> is any JSON value. \<^verbatim>\<open>insert_one\<close> and
  \<^verbatim>\<open>replace_one\<close> take a dict only (TypeError otherwise); \<^verbatim>\<open>insert_one\<close> gives a
  document without \<^verbatim>\<open>_id\<close> a fresh ObjectId, here \<open>oid\<close>; \<^verbatim>\<open>replace_one({}, data)\<close>
  replaces the first document and keeps its \<^verbatim>\<open>_id\<close>, which the replacement may
  repeat and may not alter.
\<close>

definition without_id :: "(string \<times> json) list \<Rightarrow> (string \<times> json) list" where
  "without_id kvs = filter (\<lambda>kv. fst kv \<noteq> ''_id'') kvs"

definition save_timetable :: "nat \<Rightarrow> json \<Rightarrow> db \<Rightarrow> outcome \<times> db" where
  "save_timetable oid data d =
    (if \<not> truthy data then (Inr (Msg ''No data provided'', 400), d)
     else
       (case timetable d of
          existing_timetable # rest \<Rightarrow>
            (case data of
               JObj kvs \<Rightarrow>
                 if \<not> bson_ok data then (Inl OverflowError, d)
                 else if (case map_of kvs ''_id'' of
                            None \<Rightarrow> False
                          | Some v \<Rightarrow> GivenId v \<noteq> doc_id existing_timetable)
                 then (Inl WriteError, d)
                 else (Inr (Msg ''Timetable updated successfully!'', 200),
                       d\<lparr>timetable :=
                           existing_timetable\<lparr>doc_fields := without_id kvs\<rparr> # rest\<rparr>)
             | _ \<Rightarrow> (Inl TypeError, d))
        | [] \<Rightarrow>
            (case data of
               JObj kvs \<Rightarrow>
                 if \<not> bson_ok data then (Inl OverflowError, d)
                 else (Inr (Msg ''Timetable saved successfully!'', 201),
                       d\<lparr>timetable := timetable d
                           @ [\<lparr>doc_id = (case map_of kvs ''_id'' of
                                             None \<Rightarrow> ObjectId oid
                                           | Some v \<Rightarrow> GivenId v),
                               doc_fields = without_id kvs\<rparr>]\<rparr>)
             | _ \<Rightarrow> (Inl TypeError, d))))"


text \<open>The two answers of a save that went through.\<close>

definition timetable_saved :: "outcome \<Rightarrow> bool" where
  "timetable_saved r =
     (r = Inr (Msg ''Timetable saved successfully!'', 201)
      \<or> r = Inr (Msg ''Timetable updated successfully!'', 200))"

text \<open>A stand-in for Python's parser of decimal literals: unsigned ASCII digits only.\<close>

definition demo_int_of_str :: "string \<Rightarrow> int option" where
  "demo_int_of_str s =
    (if s \<noteq> [] \<and> list_all (\<lambda>c. 48 \<le> (of_char c :: nat) \<and> (of_char c :: nat) \<le> 57) s
     then Some (foldl (\<lambda>acc c. 10 * acc + (int (of_char c) - 48)) 0 s)
     else None)"

definition quiz_request :: "json \<Rightarrow> json \<Rightarrow> string \<rightharpoonup> json" where
  "quiz_request opts answer =
     [''question'' \<mapsto> JStr ''2 + 2 = ?'', ''options'' \<mapsto> opts, ''correctAnswer'' \<mapsto> answer]"

definition abcd :: json where
  "abcd = JArr [JStr ''a'', JStr ''b'', JStr ''c'', JStr ''d'']"



definition alice_marked_3 :: db where
  "alice_marked_3 = alice_db\<lparr>attendance_coll :=
     [\<lparr>att_username = ''alice'', attendance = [JInt 3]\<rparr>]\<rparr>"

definition alice_three_sessions :: db where
  "alice_three_sessions = alice_db\<lparr>attendance_coll :=
     [\<lparr>att_username = ''alice'', attendance = [JInt 1, JInt 2, JInt 3]\<rparr>]\<rparr>"

section \<open>Login does not tell an unknown user from a wrong password\<close>

lemma alice_db_eq:
  "alice_db = \<lparr>users = [\<lparr>username = ''alice'', password = ''k7s3cret'', name = ''Alice'',
      user_type = ''Student'',
      details = Some \<lparr>class_label = ''10A'', registerNumber = [], mobileNumber = [],
        address = []\<rparr>\<rparr>],
     attendance_coll = [], quizzes = [], quiz_results = [], timetable = []\<rparr>"
  by (simp add: alice_db_def signup_def alice_signup_def empty_db_def missing_def
      find_user_def demo_hashpw_def get_or_empty_def)






section \<open>Register, then authenticate\<close>

lemma find_append_None:
  "find P xs = None \<Longrightarrow> find P (xs @ ys) = find P ys"
  by (induction xs) (auto split: if_splits)







section \<open>Usernames are unique\<close>

lemma find_user_None_iff:
  "find_user d uname = None \<longleftrightarrow> uname \<notin> username ` set (users d)"
  by (auto simp: find_user_def find_None_iff)

lemma signup_users:
  "users (snd (signup hashpw salt data d)) = users d
   \<or> (\<exists>usr. users (snd (signup hashpw salt data d)) = users d @ [usr]
         \<and> find_user d (username usr) = None)"
  by (simp add: signup_def Let_def)

lemma signup_distinct:
  assumes "distinct (map username (users d))"
  shows "distinct (map username (users (snd (signup hashpw salt data d))))"
  using signup_users [of hashpw salt data d] assms
  by (auto simp: find_user_None_iff)

lemma signups_distinct:
  "distinct (map username (users d)) \<Longrightarrow>
   distinct (map username (users (signups hashpw reqs d)))"
proof (induction reqs arbitrary: d)
  case Nil
  then show ?case by simp
next
  case (Cons r reqs)
  obtain salt data where r: "r = (salt, data)" by (cases r)
  from Cons.prems have "distinct (map username (users (snd (signup hashpw salt data d))))"
    by (rule signup_distinct)
  then show ?case
    unfolding r by (simp add: Cons.IH)
qed

lemma signup_existing:
  assumes "su_username data = Some u" and "find_user d u \<noteq> None"
  shows "snd (signup hashpw salt data d) = d"
    and "snd (fst (signup hashpw salt data d)) = 400"
    and "\<not> missing (su_username data) \<Longrightarrow> \<not> missing (su_password data) \<Longrightarrow>
         \<not> missing (su_name data) \<Longrightarrow> \<not> missing (su_type data) \<Longrightarrow>
         fst (signup hashpw salt data d) = ConflictError_username"
  using assms by (simp_all add: signup_def ConflictError_username_def)

text \<open>
  Claim C4. After any sequence of signup requests run from the empty database, the
  usernames of the stored users are pairwise distinct. A signup whose username is already
  present, in any database, leaves the database as it was and answers with status 400;
  when the request carries its four required fields the answer is the ConflictError
  "Username already exists".
\<close>

theorem username_unique:
  "distinct (map username (users (signups hashpw reqs empty_db)))
   \<and> (\<forall>salt data d u. su_username data = Some u \<and> find_user d u \<noteq> None \<longrightarrow>
         snd (signup hashpw salt data d) = d
         \<and> snd (fst (signup hashpw salt data d)) = 400
         \<and> (\<not> missing (su_username data) \<and> \<not> missing (su_password data)
              \<and> \<not> missing (su_name data) \<and> \<not> missing (su_type data) \<longrightarrow>
             fst (signup hashpw salt data d) = ConflictError_username))"
proof -
  have "distinct (map username (users empty_db))"
    by (simp add: empty_db_def)
  then have "distinct (map username (users (signups hashpw reqs empty_db)))"
    by (rule signups_distinct)
  then show ?thesis
    using signup_existing by blast
qed

theorem username_unique_witness:
  "distinct (map username (users
      (signups demo_hashpw [(''k7'', alice_signup), (''q1'', alice_signup)] empty_db)))
   \<and> su_username alice_signup = Some ''alice''
   \<and> find_user alice_db ''alice'' \<noteq> None
   \<and> \<not> missing (su_username alice_signup) \<and> \<not> missing (su_password alice_signup)
   \<and> \<not> missing (su_name alice_signup) \<and> \<not> missing (su_type alice_signup)
   \<and> signup demo_hashpw ''q1'' alice_signup alice_db = (ConflictError_username, alice_db)"
proof -
  have h: "su_username alice_signup = Some ''alice''" "find_user alice_db ''alice'' \<noteq> None"
    "\<not> missing (su_username alice_signup)" "\<not> missing (su_password alice_signup)"
    "\<not> missing (su_name alice_signup)" "\<not> missing (su_type alice_signup)"
    by (simp_all add: alice_signup_def alice_db_eq find_user_def missing_def)
  from username_unique [of demo_hashpw "[(''k7'', alice_signup), (''q1'', alice_signup)]"] h
  show ?thesis
    by (metis prod.collapse)
qed

section \<open>Marking attendance\<close>

lemma py_eq_list_refl:
  "(\<And>x. x \<in> set xs \<Longrightarrow> py_eq x x) \<Longrightarrow> py_eq_list xs xs"
  by (induction xs) auto

lemma py_eq_items_refl:
  "(\<And>kv. kv \<in> set kvs \<Longrightarrow> py_eq (snd kv) (snd kv)) \<Longrightarrow> py_eq_items kvs kvs"
  by (induction kvs) fastforce+

lemma py_eq_refl: "no_nan c \<Longrightarrow> py_eq c c"
proof (induction c)
  case (JArr xs)
  then show ?case
    by (auto simp: list_all_iff intro: py_eq_list_refl)
next
  case (JObj kvs)
  then show ?case
    by (auto simp: list_all_iff intro!: py_eq_items_refl)
qed auto

lemma py_in_snoc: "no_nan c \<Longrightarrow> py_in c (xs @ [c])"
  by (simp add: py_in_def py_eq_refl)

lemma find_update_one:
  "find (\<lambda>a. att_username a = uname) xs = Some a \<Longrightarrow>
   find (\<lambda>a. att_username a = uname) (update_one uname atts xs) = Some (a\<lparr>attendance := atts\<rparr>)"
  by (induction xs) (auto split: if_splits)

lemma marked_sessions_eq:
  "marked_sessions d uname =
     (case find_attendance d uname of None \<Rightarrow> [] | Some a \<Rightarrow> attendance a)"
  by (simp add: marked_sessions_def get_attendance_def split: option.split)

lemma mark_attendance_new:
  assumes "find_student d uname = Some student"
    and "get data ''class_number'' = c" and "truthy c" and "bson_ok c"
    and "\<not> py_in c (marked_sessions d uname)"
  shows "fst (mark_attendance uname data d)
           = Inr (MsgClass ''Attendance for Class '' c '' marked.'', 200)"
    and "marked_sessions (snd (mark_attendance uname data d)) uname
           = marked_sessions d uname @ [c]"
    and "find_student (snd (mark_attendance uname data d)) uname = Some student"
proof -
  show "fst (mark_attendance uname data d)
           = Inr (MsgClass ''Attendance for Class '' c '' marked.'', 200)"
    using assms
    by (auto simp: mark_attendance_def marked_sessions_eq split: option.splits)
  show "find_student (snd (mark_attendance uname data d)) uname = Some student"
    using assms
    by (auto simp: mark_attendance_def marked_sessions_eq find_student_def split: option.splits)
  show "marked_sessions (snd (mark_attendance uname data d)) uname
           = marked_sessions d uname @ [c]"
  proof (cases "find_attendance d uname")
    case None
    then have "find_attendance (snd (mark_attendance uname data d)) uname
                 = Some \<lparr>att_username = uname, attendance = [c]\<rparr>"
      using assms
      by (simp add: mark_attendance_def find_attendance_def find_append_None)
    then show ?thesis
      using None by (simp add: marked_sessions_eq)
  next
    case (Some a)
    then have "find_attendance (snd (mark_attendance uname data d)) uname
                 = Some (a\<lparr>attendance := attendance a @ [c]\<rparr>)"
      using assms
      by (auto simp: mark_attendance_def find_attendance_def find_update_one
          marked_sessions_eq)
    then show ?thesis
      using Some by (simp add: marked_sessions_eq)
  qed
qed

lemma mark_attendance_again:
  assumes "find_student d uname = Some student"
    and "get data ''class_number'' = c" and "truthy c"
    and "py_in c (marked_sessions d uname)"
  shows "mark_attendance uname data d = (ConflictError_marked c, d)"
  using assms
  by (auto simp: mark_attendance_def marked_sessions_eq ConflictError_marked_def py_in_def
      split: option.splits)

lemma find_student_alice: "find_student alice_db ''alice'' = Some (hd (users alice_db))"
  by (simp add: find_student_def alice_db_eq)

lemma marked_sessions_alice: "marked_sessions alice_db ''alice'' = []"
  by (simp add: marked_sessions_eq find_attendance_def alice_db_eq)

text \<open>
  Claim C3, as the claim states it, fails at three class numbers. For class number 0
  the first call already fails: Python takes 0 for false and the handler answers "Class
  number is required.". For an integer of more than 8 bytes the first call raises
  OverflowError in the driver. For a NaN both calls succeed and the list grows by two,
  since a NaN is not equal to itself.
\<close>

theorem mark_attendance_twice_counterexample:
  "find_student alice_db ''alice'' \<noteq> None
   \<and> mark_attendance ''alice'' [''class_number'' \<mapsto> JInt 0] alice_db
       = (Inr (Msg ''Class number is required.'', 400), alice_db)
   \<and> mark_attendance ''alice'' [''class_number'' \<mapsto> JInt (2 ^ 63)] alice_db
       = (Inl OverflowError, alice_db)
   \<and> fst (mark_attendance ''alice'' [''class_number'' \<mapsto> JFloat NaN]
        (snd (mark_attendance ''alice'' [''class_number'' \<mapsto> JFloat NaN] alice_db)))
       = Inr (MsgClass ''Attendance for Class '' (JFloat NaN) '' marked.'', 200)
   \<and> marked_sessions (snd (mark_attendance ''alice'' [''class_number'' \<mapsto> JFloat NaN]
        (snd (mark_attendance ''alice'' [''class_number'' \<mapsto> JFloat NaN] alice_db)))) ''alice''
       = [JFloat NaN, JFloat NaN]"
  by (simp add: mark_attendance_def get_def find_student_def find_attendance_def alice_db_eq
      py_in_def marked_sessions_eq Let_def)

text \<open>
  Claim C3, amended. Let the token name a user stored with type Student, and let the
  class number of the request be true for Python (not null, zero, empty or false), hold
  no NaN, fit the 8-byte integers of the database, and not yet be among the sessions the
  user has marked. Then the first call answers status 200 and appends the class number
  to the user's marked sessions; the second call with the same request answers the
  ConflictError "already marked" with status 400 and leaves the database as the first
  call left it; the user's list is longer by exactly one.
\<close>

theorem mark_attendance_twice:
  assumes "find_student d uname = Some student"
    and "get data ''class_number'' = c"
    and "truthy c" and "no_nan c" and "bson_ok c"
    and "\<not> py_in c (marked_sessions d uname)"
  shows "fst (mark_attendance uname data d)
           = Inr (MsgClass ''Attendance for Class '' c '' marked.'', 200)
         \<and> marked_sessions (snd (mark_attendance uname data d)) uname
             = marked_sessions d uname @ [c]
         \<and> mark_attendance uname data (snd (mark_attendance uname data d))
             = (ConflictError_marked c, snd (mark_attendance uname data d))
         \<and> length (marked_sessions (snd (mark_attendance uname data d)) uname)
             = length (marked_sessions d uname) + 1"
proof -
  let ?d1 = "snd (mark_attendance uname data d)"
  note first = mark_attendance_new [OF assms(1,2,3,5,6)]
  have "py_in c (marked_sessions ?d1 uname)"
    using first(2) assms(4) by (simp add: py_in_snoc)
  with first(3) assms(2,3)
  have "mark_attendance uname data ?d1 = (ConflictError_marked c, ?d1)"
    by (rule mark_attendance_again)
  with first show ?thesis by simp
qed

theorem mark_attendance_twice_witness:
  "find_student alice_db ''alice'' = Some (hd (users alice_db))
   \<and> truthy (JInt 3) \<and> no_nan (JInt 3) \<and> bson_ok (JInt 3)
   \<and> \<not> py_in (JInt 3) (marked_sessions alice_db ''alice'')
   \<and> mark_attendance ''alice'' [''class_number'' \<mapsto> JInt 3] alice_db
       = (Inr (MsgClass ''Attendance for Class '' (JInt 3) '' marked.'', 200), alice_marked_3)
   \<and> mark_attendance ''alice'' [''class_number'' \<mapsto> JInt 3] alice_marked_3
       = (ConflictError_marked (JInt 3), alice_marked_3)
   \<and> marked_sessions alice_marked_3 ''alice'' = [JInt 3]"
proof -
  have g: "get [''class_number'' \<mapsto> JInt 3] ''class_number'' = JInt 3"
    by (simp add: get_def)
  have h: "truthy (JInt 3)" "no_nan (JInt 3)" "bson_ok (JInt 3)"
    "\<not> py_in (JInt 3) (marked_sessions alice_db ''alice'')"
    by (simp_all add: marked_sessions_alice py_in_def)
  have d1: "snd (mark_attendance ''alice'' [''class_number'' \<mapsto> JInt 3] alice_db)
              = alice_marked_3"
    by (simp add: mark_attendance_def get_def find_student_def find_attendance_def
        alice_db_eq py_in_def alice_marked_3_def Let_def)
  from mark_attendance_twice [OF find_student_alice g h] d1
  have "fst (mark_attendance ''alice'' [''class_number'' \<mapsto> JInt 3] alice_db)
          = Inr (MsgClass ''Attendance for Class '' (JInt 3) '' marked.'', 200)"
    and "mark_attendance ''alice'' [''class_number'' \<mapsto> JInt 3] alice_marked_3
          = (ConflictError_marked (JInt 3), alice_marked_3)"
    and "marked_sessions alice_marked_3 ''alice'' = [] @ [JInt 3]"
    by (simp_all add: marked_sessions_alice)
  with d1 find_student_alice h show ?thesis
    by (simp add: prod_eq_iff)
qed




section \<open>Creating a quiz\<close>

lemma get_quiz_request:
  "get (quiz_request opts answer) ''question'' = JStr ''2 + 2 = ?''"
  "get (quiz_request opts answer) ''options'' = opts"
  "get (quiz_request opts answer) ''correctAnswer'' = answer"
  by (simp_all add: get_def quiz_request_def)

lemma create_quiz_created:
  assumes "create_quiz int_of_str data d = (Inr (Msg ''Quiz created successfully!'', 201), d')"
  shows "\<exists>k answer. py_int int_of_str (get data ''correctAnswer'') = Inr k
           \<and> 1 \<le> k \<and> k \<le> 4
           \<and> getitem (get data ''options'') (nat (k - 1)) = Inr answer
           \<and> d' = d\<lparr>quizzes := quizzes d
                 @ [\<lparr>question = get data ''question'', options = get data ''options'',
                      correctAnswer = answer\<rparr>]\<rparr>"
  using assms
  by (auto simp: create_quiz_def Let_def split: if_splits sum.splits exn.splits)

lemma getitem_JArr:
  "getitem (JArr xs) i = Inr v \<longleftrightarrow> i < length xs \<and> v = xs ! i"
  by (auto simp: getitem_def)

text \<open>
  The part of claim C7 that the code keeps: with a list of options that has a \<open>k\<close>-th
  element, values the database can encode and a correct answer that converts to \<open>k\<close>
  between 1 and 4, the stored quiz holds the \<open>k\<close>-th option; a correct answer that
  converts to a number outside 1 to 4, or a string that is no number, is answered with
  status 400 and stores nothing.
\<close>

lemma create_quiz_stores_kth:
  assumes "truthy (get data ''question'')" and "get data ''options'' = JArr xs"
    and "py_int int_of_str (get data ''correctAnswer'') = Inr k"
    and "1 \<le> k" and "k \<le> 4" and "nat k \<le> length xs"
    and "bson_ok (get data ''question'')" and "bson_ok (JArr xs)"
    and "truthy (get data ''correctAnswer'')"
  shows "create_quiz int_of_str data d =
           (Inr (Msg ''Quiz created successfully!'', 201),
            d\<lparr>quizzes := quizzes d
                @ [\<lparr>question = get data ''question'', options = JArr xs,
                     correctAnswer = xs ! (nat k - 1)\<rparr>]\<rparr>)"
proof -
  have i: "nat (k - 1) < length xs" "nat (k - 1) = nat k - 1"
    using assms(4,6) by simp_all
  then have "xs \<noteq> []" by auto
  moreover have "bson_ok (xs ! (nat k - 1))"
    using assms(8) i by (simp add: list_all_length)
  ultimately show ?thesis
    using assms i by (simp add: create_quiz_def getitem_def Let_def)
qed

lemma create_quiz_out_of_range:
  assumes "py_int int_of_str (get data ''correctAnswer'') = Inr k" and "k < 1 \<or> 4 < k"
  shows "snd (create_quiz int_of_str data d) = d"
    and "\<exists>m. fst (create_quiz int_of_str data d) = Inr (Msg m, 400)"
  using assms by (auto simp: create_quiz_def Let_def)

lemma create_quiz_not_a_number:
  assumes "get data ''correctAnswer'' = JStr s" and "int_of_str s = None"
  shows "snd (create_quiz int_of_str data d) = d"
    and "\<exists>m. fst (create_quiz int_of_str data d) = Inr (Msg m, 400)"
  using assms by (auto simp: create_quiz_def Let_def py_int_def)

text \<open>
  Claim C7 at its failing inputs. A correct answer that is a list (not a number) makes
  \<^verbatim>\<open>int\<close> raise TypeError, which \<^verbatim>\<open>except ValueError\<close> does not catch; the correct
  answer 3 with a single option makes the index raise IndexError; and the correct answer
  4.5, outside 1 to 4, is truncated to 4 and stored as the fourth option. None of the
  first two is answered with a ValidationError.
\<close>

theorem create_quiz_escapes_validation:
  "create_quiz int_of_str (quiz_request abcd (JArr [JInt 2])) d = (Inl TypeError, d)
   \<and> create_quiz int_of_str (quiz_request (JArr [JStr ''a'']) (JInt 3)) d = (Inl IndexError, d)
   \<and> create_quiz int_of_str (quiz_request abcd (JFloat (Fin (9 / 2)))) d
       = (Inr (Msg ''Quiz created successfully!'', 201),
          d\<lparr>quizzes := quizzes d
              @ [\<lparr>question = JStr ''2 + 2 = ?'', options = abcd, correctAnswer = JStr ''d''\<rparr>]\<rparr>)"
proof -
  have "\<lfloor>9 / 2 :: rat\<rfloor> = 4"
    by (simp add: floor_eq_iff)
  then show ?thesis
    by (simp add: create_quiz_def get_quiz_request py_int_def getitem_def abcd_def Let_def)
qed

theorem create_quiz_escapes_validation_witness:
  "create_quiz demo_int_of_str (quiz_request abcd (JArr [JInt 2])) empty_db
     = (Inl TypeError, empty_db)
   \<and> create_quiz demo_int_of_str (quiz_request (JArr [JStr ''a'']) (JInt 3)) empty_db
     = (Inl IndexError, empty_db)
   \<and> quizzes (snd (create_quiz demo_int_of_str (quiz_request abcd (JFloat (Fin (9 / 2))))
        empty_db))
     = [\<lparr>question = JStr ''2 + 2 = ?'', options = abcd, correctAnswer = JStr ''d''\<rparr>]"
  using create_quiz_escapes_validation [of demo_int_of_str empty_db]
  by (simp add: empty_db_def)

text \<open>
  Claim C9. The request with the single option "a" and the correct answer 3 passes every
  validation of the handler, and the index then raises IndexError: the outcome is neither
  a ValidationError nor a stored quiz. Whenever a request is answered "Quiz created
  successfully!", the correct answer converts to a \<open>k\<close> between 1 and 4 at which the
  index into the options succeeds, and options that are a list have at least \<open>k\<close>
  elements, of which the \<open>k\<close>-th is stored.
\<close>

theorem create_quiz_index_unguarded:
  "create_quiz int_of_str (quiz_request (JArr [JStr ''a'']) (JInt 3)) d = (Inl IndexError, d)
   \<and> (\<forall>data d0 d'.
        create_quiz int_of_str data d0 = (Inr (Msg ''Quiz created successfully!'', 201), d')
        \<longrightarrow> (\<exists>k answer. py_int int_of_str (get data ''correctAnswer'') = Inr k
               \<and> 1 \<le> k \<and> k \<le> 4
               \<and> getitem (get data ''options'') (nat (k - 1)) = Inr answer
               \<and> quizzes d' = quizzes d0
                    @ [\<lparr>question = get data ''question'', options = get data ''options'',
                         correctAnswer = answer\<rparr>]
               \<and> (\<forall>xs. get data ''options'' = JArr xs \<longrightarrow>
                     nat k \<le> length xs \<and> answer = xs ! (nat k - 1))))"
proof -
  have crash:
    "create_quiz int_of_str (quiz_request (JArr [JStr ''a'']) (JInt 3)) d = (Inl IndexError, d)"
    by (simp add: create_quiz_def get_quiz_request py_int_def getitem_def Let_def)
  have "\<exists>k answer. py_int int_of_str (get data ''correctAnswer'') = Inr k
           \<and> 1 \<le> k \<and> k \<le> 4
           \<and> getitem (get data ''options'') (nat (k - 1)) = Inr answer
           \<and> quizzes d' = quizzes d0
                @ [\<lparr>question = get data ''question'', options = get data ''options'',
                     correctAnswer = answer\<rparr>]
           \<and> (\<forall>xs. get data ''options'' = JArr xs \<longrightarrow>
                 nat k \<le> length xs \<and> answer = xs ! (nat k - 1))"
    if "create_quiz int_of_str data d0 = (Inr (Msg ''Quiz created successfully!'', 201), d')"
    for data d0 d'
  proof -
    from create_quiz_created [OF that]
    obtain k answer where k: "py_int int_of_str (get data ''correctAnswer'') = Inr k"
      "1 \<le> k" "k \<le> 4"
      and item: "getitem (get data ''options'') (nat (k - 1)) = Inr answer"
      and d': "d' = d0\<lparr>quizzes := quizzes d0
                 @ [\<lparr>question = get data ''question'', options = get data ''options'',
                      correctAnswer = answer\<rparr>]\<rparr>"
      by blast
    have "nat k \<le> length xs \<and> answer = xs ! (nat k - 1)" if "get data ''options'' = JArr xs" for xs
    proof -
      have "nat (k - 1) = nat k - 1" by simp
      moreover have "nat (k - 1) < length xs \<and> answer = xs ! nat (k - 1)"
        using item that by (simp add: getitem_JArr)
      ultimately show ?thesis using k(2) by auto
    qed
    with k item d' show ?thesis by auto
  qed
  with crash show ?thesis by blast
qed

theorem create_quiz_index_unguarded_witness:
  "create_quiz demo_int_of_str (quiz_request abcd (JStr ''2'')) empty_db
     = (Inr (Msg ''Quiz created successfully!'', 201),
        empty_db\<lparr>quizzes := [\<lparr>question = JStr ''2 + 2 = ?'', options = abcd,
                                correctAnswer = JStr ''b''\<rparr>]\<rparr>)
   \<and> py_int demo_int_of_str (get (quiz_request abcd (JStr ''2'')) ''correctAnswer'') = Inr 2
   \<and> nat 2 \<le> length [JStr ''a'', JStr ''b'', JStr ''c'', JStr ''d'']
   \<and> create_quiz demo_int_of_str (quiz_request (JArr [JStr ''a'']) (JInt 3)) empty_db
       = (Inl IndexError, empty_db)"
proof -
  have p: "py_int demo_int_of_str (get (quiz_request abcd (JStr ''2'')) ''correctAnswer'') = Inr 2"
    by (simp add: get_quiz_request py_int_def demo_int_of_str_def)
  have ok: "create_quiz demo_int_of_str (quiz_request abcd (JStr ''2'')) empty_db
     = (Inr (Msg ''Quiz created successfully!'', 201),
        empty_db\<lparr>quizzes := [\<lparr>question = JStr ''2 + 2 = ?'', options = abcd,
                                correctAnswer = JStr ''b''\<rparr>]\<rparr>)"
    using p by (simp add: create_quiz_def get_quiz_request getitem_def abcd_def Let_def
        empty_db_def)
  have o: "get (quiz_request abcd (JStr ''2'')) ''options''
             = JArr [JStr ''a'', JStr ''b'', JStr ''c'', JStr ''d'']"
    by (simp add: get_quiz_request abcd_def)
  from create_quiz_index_unguarded [of demo_int_of_str empty_db] ok p o
  show ?thesis
    by (metis Inr_inject)
qed

section \<open>Saving a quiz result\<close>

text \<open>
  Claim C10. A request that supplies both \<^verbatim>\<open>studentUsername\<close> and \<^verbatim>\<open>percentage\<close>, with
  the percentage 0 (the integer or the float) or with the empty string as the username,
  is answered with the ValidationError of status 400, "Student username and percentage
  are required.", and the database is unchanged: no result is stored.
\<close>

theorem save_quiz_result_falsy:
  assumes "data ''studentUsername'' = Some student_username"
    and "data ''percentage'' = Some pct"
    and "pct = JInt 0 \<or> pct = JFloat (Fin 0) \<or> student_username = JStr []"
  shows "save_quiz_result data d = (ValidationError_quiz_result, d)"
  using assms
  by (auto simp: save_quiz_result_def get_def ValidationError_quiz_result_def)

theorem save_quiz_result_falsy_witness:
  "save_quiz_result [''studentUsername'' \<mapsto> JStr ''alice'', ''percentage'' \<mapsto> JInt 0] alice_db
     = (Inr (Msg ''Student username and percentage are required.'', 400), alice_db)
   \<and> save_quiz_result [''studentUsername'' \<mapsto> JStr '''', ''percentage'' \<mapsto> JInt 80] alice_db
     = (Inr (Msg ''Student username and percentage are required.'', 400), alice_db)"
proof -
  have "save_quiz_result [''studentUsername'' \<mapsto> JStr ''alice'', ''percentage'' \<mapsto> JInt 0]
          alice_db = (ValidationError_quiz_result, alice_db)"
    by (rule save_quiz_result_falsy [where student_username = "JStr ''alice''" and pct = "JInt 0"])
      simp_all
  moreover
  have "save_quiz_result [''studentUsername'' \<mapsto> JStr '''', ''percentage'' \<mapsto> JInt 80]
          alice_db = (ValidationError_quiz_result, alice_db)"
    by (rule save_quiz_result_falsy [where student_username = "JStr ''''" and pct = "JInt 80"])
      simp_all
  ultimately show ?thesis
    by (simp add: ValidationError_quiz_result_def)
qed

section \<open>The timetable is a single document\<close>



lemma save_timetable_insert:
  assumes "timetable d = []" and "timetable_saved (fst (save_timetable oid data d))"
  shows "\<exists>kvs. data = JObj kvs
           \<and> save_timetable oid data d
               = (Inr (Msg ''Timetable saved successfully!'', 201),
                  d\<lparr>timetable :=
                      [\<lparr>doc_id = (case map_of kvs ''_id'' of
                                    None \<Rightarrow> ObjectId oid | Some v \<Rightarrow> GivenId v),
                        doc_fields = without_id kvs\<rparr>]\<rparr>)"
  using assms
  by (auto simp: save_timetable_def timetable_saved_def split: json.splits if_splits)






section \<open>The attendance percentage\<close>

lemma round_half_even_error: "\<bar>of_int (round_half_even x) - x\<bar> \<le> 1 / 2"
proof -
  have "of_int \<lfloor>x\<rfloor> \<le> x" "x < of_int \<lfloor>x\<rfloor> + 1"
    by linarith+
  then show ?thesis
    by (auto simp: round_half_even_def Let_def)
qed

lemma round_half_even_near:
  assumes "\<bar>x - of_int k\<bar> < 1 / 2"
  shows "round_half_even x = k"
proof -
  have "\<bar>of_int (round_half_even x) - x\<bar> \<le> 1 / 2"
    by (rule round_half_even_error)
  with assms have "\<bar>(of_int (round_half_even x) :: rat) - of_int k\<bar> < 1"
    by linarith
  then have "\<bar>(of_int (round_half_even x - k) :: rat)\<bar> < 1"
    by simp
  then have "\<bar>round_half_even x - k\<bar> < 1"
    by (metis of_int_abs of_int_less_1_iff)
  then show ?thesis by linarith
qed

lemma round_half_even_int: "round_half_even (of_int k) = k"
  by (rule round_half_even_near) simp

lemma ilog2_le:
  assumes "0 < x"
  shows "2 powi (ilog2 x) \<le> x"
proof -
  obtain p q where pq: "quotient_of x = (p, q)" by (cases "quotient_of x")
  then have q: "0 < q" and x: "x = of_int p / of_int q"
    by (simp_all add: quotient_of_denom_pos quotient_of_div)
  with assms have p: "0 < p"
    by (simp add: zero_less_divide_iff)
  define d where "d = bitlen p - bitlen q"
  show ?thesis
  proof (cases "2 powi d \<le> x")
    case True
    then show ?thesis
      by (simp add: ilog2_def pq d_def)
  next
    case False
    have bp: "1 \<le> bitlen p" and bq: "1 \<le> bitlen q"
      using p q bitlen_eq_zero_iff [of p] bitlen_eq_zero_iff [of q] bitlen_nonneg [of p]
        bitlen_nonneg [of q] by linarith+
    have lo: "(2::rat) powi (bitlen p - 1) \<le> of_int p"
    proof -
      have "2 ^ nat (bitlen p - 1) \<le> p"
        using bitlen_bounds [OF p] by simp
      then have "(of_int (2 ^ nat (bitlen p - 1)) :: rat) \<le> of_int p"
        by (simp only: of_int_le_iff)
      then show ?thesis
        using bp by (simp add: power_int_def)
    qed
    have hi: "(of_int q :: rat) \<le> 2 powi (bitlen q)"
    proof -
      have "q < 2 ^ nat (bitlen q)"
        using bitlen_bounds [OF q] by simp
      then have "(of_int q :: rat) < of_int (2 ^ nat (bitlen q))"
        by (simp only: of_int_less_iff)
      then show ?thesis
        using bq by (simp add: power_int_def)
    qed
    have "(2::rat) powi (d - 1) = 2 powi (bitlen p - 1) / 2 powi (bitlen q)"
      by (simp add: d_def power_int_diff)
    also have "\<dots> \<le> of_int p / 2 powi (bitlen q)"
      using lo by (simp add: divide_right_mono)
    also have "\<dots> \<le> of_int p / of_int q"
      using hi p q by (simp add: divide_left_mono)
    finally have "(2::rat) powi (d - 1) \<le> x"
      by (simp add: x)
    moreover have "ilog2 x = d - 1"
      using False by (simp add: ilog2_def pq d_def)
    ultimately show ?thesis by simp
  qed
qed

lemma fl_error:
  assumes "1 / 2 ^ 1022 \<le> x" and "x \<le> 2 ^ 1000"
  shows "\<exists>y. fl x = Fin y \<and> \<bar>y - x\<bar> \<le> x / 2 ^ 53"
proof -
  have pos: "0 < x"
    using assms(1) by (meson less_le_trans zero_less_divide_1_iff zero_less_numeral zero_less_power)
  define e where "e = max (ilog2 \<bar>x\<bar> - 52) (- 1074)"
  define y :: rat where "y = of_int (round_half_even (x / 2 powi e)) * 2 powi e"
  have e_pos: "(0::rat) < 2 powi e" by simp
  have "(2::rat) powi (ilog2 x - 52) = 2 powi (ilog2 x) / 2 ^ 52"
    by (simp add: power_int_diff)
  also have "\<dots> \<le> x / 2 ^ 52"
    using ilog2_le [OF pos] by (simp add: divide_right_mono)
  finally have a: "(2::rat) powi (ilog2 x - 52) \<le> x / 2 ^ 52" .
  have "(2::rat) powi (- 1074) = (1 / 2 ^ 1022) / 2 ^ 52"
    by (simp add: power_int_minus field_simps)
  also have "\<dots> \<le> x / 2 ^ 52"
    using assms(1) by (simp add: divide_right_mono)
  finally have b: "(2::rat) powi (- 1074) \<le> x / 2 ^ 52" .
  have e_le: "(2::rat) powi e \<le> x / 2 ^ 52"
    using a b pos by (simp add: e_def max_def)
  have "\<bar>y - x\<bar> = \<bar>of_int (round_half_even (x / 2 powi e)) - x / 2 powi e\<bar> * 2 powi e"
  proof -
    have "y - x = (of_int (round_half_even (x / 2 powi e)) - x / 2 powi e) * 2 powi e"
      by (simp add: y_def field_simps)
    then show ?thesis
      by (simp add: abs_mult)
  qed
  also have "\<dots> \<le> (1 / 2) * 2 powi e"
    using round_half_even_error [of "x / 2 powi e"] by (simp add: mult_right_mono)
  also have "\<dots> \<le> (1 / 2) * (x / 2 ^ 52)"
    using e_le by simp
  also have "\<dots> = x / 2 ^ 53"
    by simp
  finally have err: "\<bar>y - x\<bar> \<le> x / 2 ^ 53" .
  have "x / 2 ^ 53 \<le> x"
    using pos by (simp add: field_simps)
  with err have "\<bar>y\<bar> \<le> 2 * x" by linarith
  also have "\<dots> \<le> 2 ^ 1001"
    using assms(2) by simp
  also have "\<dots> < (2::rat) ^ 1024"
    by simp
  finally have nov: "\<not> (2::rat) powi 1024 \<le> \<bar>y\<bar>"
    by simp
  have ne: "x \<noteq> 0" using pos by simp
  have "fl x = (if 2 powi 1024 \<le> \<bar>y\<bar> then (if 0 < x then PosInf else NegInf) else Fin y)"
    unfolding fl_def Let_def y_def e_def using ne by (simp only: if_False)
  then have "fl x = Fin y"
    using nov by (simp only: if_False)
  with err show ?thesis by blast
qed

lemma fl_int:
  assumes "0 \<le> k" and "k < 2 ^ 53"
  shows "fl (of_int k) = Fin (of_int k)"
proof (cases "k = 0")
  case True
  then show ?thesis by (simp add: fl_def)
next
  case False
  with assms have pos: "(0::rat) < of_int k" by simp
  define e where "e = max (ilog2 \<bar>of_int k\<bar> - 52) (- 1074)"
  have "(2::rat) powi (ilog2 (of_int k)) \<le> of_int k"
    using pos by (rule ilog2_le)
  also have "\<dots> < 2 ^ 53"
    using assms(2) by (metis of_int_less_iff of_int_numeral of_int_power)
  finally have "(2::rat) powi (ilog2 (of_int k)) < 2 powi 53"
    by simp
  then have "ilog2 (of_int k) < 53"
    by (rule power_int_le_imp_less_exp [rotated]) simp_all
  then have e: "e \<le> 0"
    using pos by (simp add: e_def)
  have "(of_int k :: rat) / 2 powi e = of_int (k * 2 ^ nat (- e))"
    using e by (simp add: power_int_def field_simps)
  then have "round_half_even (of_int k / 2 powi e) = k * 2 ^ nat (- e)"
    by (simp only: round_half_even_int)
  then have y: "(of_int (round_half_even (of_int k / 2 powi e)) :: rat) * 2 powi e = of_int k"
    using e by (simp add: power_int_def field_simps)
  have "\<bar>of_int k :: rat\<bar> < 2 ^ 1024"
  proof -
    have "(of_int k :: rat) < 2 ^ 53"
      using assms(2) by (metis of_int_less_iff of_int_numeral of_int_power)
    also have "\<dots> < (2::rat) ^ 1024" by simp
    finally show ?thesis using pos by simp
  qed
  then have nov: "\<not> (2::rat) powi 1024 \<le> \<bar>of_int k\<bar>"
    by simp
  have ne: "(of_int k :: rat) \<noteq> 0" using False by simp
  have "fl (of_int k) =
      (if 2 powi 1024 \<le> \<bar>of_int (round_half_even (of_int k / 2 powi e)) * 2 powi e :: rat\<bar>
       then (if 0 < (of_int k :: rat) then PosInf else NegInf)
       else Fin (of_int (round_half_even (of_int k / 2 powi e)) * 2 powi e))"
    unfolding fl_def Let_def e_def using ne by (simp only: if_False)
  then show ?thesis
    using nov by (simp only: y if_False)
qed

lemma spec_percentage_eq: "spec_percentage n = 10 * of_nat n"
proof -
  have "(of_nat n :: rat) / 10 * 100 * 100 = of_int (1000 * int n)"
    by simp
  then have "round_half_even (of_nat n / 10 * 100 * 100) = 1000 * int n"
    by (simp only: round_half_even_int)
  then show ?thesis
    by (simp add: spec_percentage_def)
qed

lemma percentage_float:
  assumes "n \<le> 10 ^ 9"
  shows "\<exists>q. py_truediv (int n) 10 = Inr q
           \<and> py_round2 (py_fmul q (Fin 100)) = Fin (10 * of_nat n)"
proof (cases "n = 0")
  case True
  have "fl 0 = Fin 0" by (simp add: fl_def)
  then show ?thesis
    using True by (simp add: py_truediv_def round_half_even_def)
next
  case False
  define N :: rat where "N = of_nat n"
  have N: "1 \<le> N" "N \<le> 1000000000"
  proof -
    show "1 \<le> N"
      using False by (cases n) (simp_all add: N_def)
    have "(of_nat n :: rat) \<le> of_nat (10 ^ 9)"
      using assms by (simp only: of_nat_le_iff)
    then show "N \<le> 1000000000"
      by (simp add: N_def)
  qed
  have "1 / 2 ^ 1022 \<le> N / 10"
  proof -
    have "(1::rat) / 2 ^ 1022 \<le> 1 / 10" by simp
    also have "\<dots> \<le> N / 10" using N(1) by simp
    finally show ?thesis .
  qed
  moreover have "N / 10 \<le> 2 ^ 1000"
  proof -
    have "N / 10 \<le> 10 ^ 9" using N by simp
    also have "\<dots> \<le> (2::rat) ^ 1000" by simp
    finally show ?thesis .
  qed
  ultimately obtain y1 where y1: "fl (N / 10) = Fin y1" "\<bar>y1 - N / 10\<bar> \<le> N / 10 / 2 ^ 53"
    using fl_error by blast
  have q: "py_truediv (int n) 10 = Inr (Fin y1)"
    using y1(1) by (simp add: py_truediv_def N_def)
  have e1: "y1 - N / 10 \<le> N / 10 / 9007199254740992"
    "N / 10 - y1 \<le> N / 10 / 9007199254740992"
  proof -
    from y1(2) have "y1 - N / 10 \<le> N / 10 / 2 ^ 53 \<and> - (y1 - N / 10) \<le> N / 10 / 2 ^ 53"
      by (simp only: abs_le_iff)
    then show "y1 - N / 10 \<le> N / 10 / 9007199254740992"
      "N / 10 - y1 \<le> N / 10 / 9007199254740992"
      by simp_all
  qed
  have y1_bounds: "1 / 20 \<le> y1" "y1 \<le> N / 5"
    using e1 N by linarith+
  have "1 / 2 ^ 1022 \<le> y1 * 100"
  proof -
    have "(1::rat) / 2 ^ 1022 \<le> 1" by simp
    also have "\<dots> \<le> y1 * 100" using y1_bounds(1) by simp
    finally show ?thesis .
  qed
  moreover have "y1 * 100 \<le> 2 ^ 1000"
  proof -
    have "y1 * 100 \<le> 10 ^ 11" using y1_bounds(2) N(2) by simp
    also have "\<dots> \<le> (2::rat) ^ 1000" by simp
    finally show ?thesis .
  qed
  ultimately obtain y2 where y2: "fl (y1 * 100) = Fin y2"
    "\<bar>y2 - y1 * 100\<bar> \<le> y1 * 100 / 2 ^ 53"
    using fl_error by blast
  have "\<bar>y2 * 100 - of_int (1000 * int n)\<bar> < 1 / 2"
  proof -
    have e2: "y2 - y1 * 100 \<le> y1 * 100 / 9007199254740992"
      "y1 * 100 - y2 \<le> y1 * 100 / 9007199254740992"
    proof -
      from y2(2) have "y2 - y1 * 100 \<le> y1 * 100 / 2 ^ 53
          \<and> - (y2 - y1 * 100) \<le> y1 * 100 / 2 ^ 53"
        by (simp only: abs_le_iff)
      then show "y2 - y1 * 100 \<le> y1 * 100 / 9007199254740992"
        "y1 * 100 - y2 \<le> y1 * 100 / 9007199254740992"
        by simp_all
    qed
    have "y2 * 100 - 1000 * N < 1 / 2" "1000 * N - y2 * 100 < 1 / 2"
      using e1 e2 N by linarith+
    moreover have "(of_int (1000 * int n) :: rat) = 1000 * N"
      by (simp add: N_def)
    ultimately show ?thesis
      by linarith
  qed
  then have "round_half_even (y2 * 100) = 1000 * int n"
    by (rule round_half_even_near)
  then have "py_round2 (Fin y2) = fl (of_int (10 * int n))"
    by simp
  also have "\<dots> = Fin (of_int (10 * int n))"
  proof (rule fl_int)
    have "10 * int n \<le> 10 * 10 ^ 9" using assms by simp
    also have "\<dots> < (2::int) ^ 53" by simp
    finally show "10 * int n < 2 ^ 53" .
  qed simp
  finally have "py_round2 (py_fmul (Fin y1) (Fin 100)) = Fin (10 * of_nat n)"
    using y2(1) by simp
  with q show ?thesis by blast
qed

lemma fl_three_tenths: "fl (3 / 10) = Fin (5404319552844595 / 18014398509481984)"
  by code_simp

lemma fl_times_hundred: "fl (5404319552844595 / 18014398509481984 * 100) = Fin 30"
  by code_simp

lemma fl_thirty: "fl 30 = Fin 30"
  using fl_int [of 30] by simp

text \<open>
  Three sessions, computed step by step: 3 / 10 is the float next to 0.3 (below it), its
  product with 100 rounds to exactly 30, and rounding to two decimals leaves 30.
\<close>

lemma percentage_three_by_evaluation:
  "py_truediv 3 10 = Inr (Fin (5404319552844595 / 18014398509481984))
   \<and> py_fmul (Fin (5404319552844595 / 18014398509481984)) (Fin 100) = Fin 30
   \<and> py_round2 (Fin 30) = Fin 30"
proof -
  have "round_half_even (30 * 100) = 3000"
    using round_half_even_int [of 3000] by simp
  then show ?thesis
    using fl_three_tenths fl_times_hundred fl_thirty by (simp add: py_truediv_def)
qed

lemma find_attendance_in:
  "find_attendance d uname = Some a \<Longrightarrow> a \<in> set (attendance_coll d)"
  by (auto simp: find_attendance_def find_Some_iff)

lemma student_row_eq:
  assumes "\<forall>a \<in> set (attendance_coll d). length (attendance a) \<le> 10 ^ 9"
  shows "student_row d u =
    Inr \<lparr>sd_username = username u, sd_name = name u,
      sd_attendance = spec_attendance (find_attendance d (username u)),
      sd_class = (case details u of None \<Rightarrow> ''N/A'' | Some dt \<Rightarrow> class_label dt),
      sd_registerNumber = (case details u of None \<Rightarrow> ''N/A'' | Some dt \<Rightarrow> registerNumber dt),
      sd_mobileNumber = (case details u of None \<Rightarrow> ''N/A'' | Some dt \<Rightarrow> mobileNumber dt)\<rparr>"
proof (cases "find_attendance d (username u)")
  case None
  then show ?thesis
    by (simp add: student_row_def spec_attendance_def py_round_def)
next
  case (Some a)
  then have "length (attendance a) \<le> 10 ^ 9"
    using assms find_attendance_in by blast
  then obtain q where "py_truediv (int (length (attendance a))) 10 = Inr q"
    and "py_round2 (py_fmul q (Fin 100)) = Fin (10 * of_nat (length (attendance a)))"
    using percentage_float by blast
  then show ?thesis
    using Some
    by (simp add: student_row_def spec_attendance_def py_round_def spec_percentage_eq)
qed

lemma students_list_eq:
  assumes "\<forall>a \<in> set (attendance_coll d). length (attendance a) \<le> 10 ^ 9"
  shows "students_list d us =
    Inr (map (\<lambda>u. \<lparr>sd_username = username u, sd_name = name u,
      sd_attendance = spec_attendance (find_attendance d (username u)),
      sd_class = (case details u of None \<Rightarrow> ''N/A'' | Some dt \<Rightarrow> class_label dt),
      sd_registerNumber = (case details u of None \<Rightarrow> ''N/A'' | Some dt \<Rightarrow> registerNumber dt),
      sd_mobileNumber = (case details u of None \<Rightarrow> ''N/A'' | Some dt \<Rightarrow> mobileNumber dt)\<rparr>) us)"
  by (induction us) (simp_all add: student_row_eq [OF assms])

text \<open>
  Claim C6. Let every attendance list in the database have at most \<open>10 ^ 9\<close> entries
  (a document of MongoDB holds far fewer). Then \<^verbatim>\<open>/students\<close> answers status 200 with
  one row for each user of type Student, in the order of the collection, and the
  attendance of the row is the percentage of the specification, computed in exact
  arithmetic, of the number of sessions in the student's attendance record: the float
  operations of the code lose nothing. Without a record the attendance is the integer 0.
  That percentage is ten times the number of sessions, 30 for three sessions.
\<close>

theorem students_attendance_percentage:
  assumes "\<forall>a \<in> set (attendance_coll d). length (attendance a) \<le> 10 ^ 9"
  shows "get_students d =
    Inr (Students
      (map (\<lambda>u. \<lparr>sd_username = username u, sd_name = name u,
         sd_attendance = spec_attendance (find_attendance d (username u)),
         sd_class = (case details u of None \<Rightarrow> ''N/A'' | Some dt \<Rightarrow> class_label dt),
         sd_registerNumber =
           (case details u of None \<Rightarrow> ''N/A'' | Some dt \<Rightarrow> registerNumber dt),
         sd_mobileNumber =
           (case details u of None \<Rightarrow> ''N/A'' | Some dt \<Rightarrow> mobileNumber dt)\<rparr>)
        (filter (\<lambda>u. user_type u = ''Student'') (users d))), 200)
    \<and> spec_attendance None = JInt 0
    \<and> (\<forall>a. spec_attendance (Some a) = JFloat (Fin (10 * of_nat (length (attendance a)))))
    \<and> spec_percentage 3 = 30"
  by (simp add: get_students_def students_list_eq [OF assms] spec_attendance_def
      spec_percentage_eq)

theorem students_attendance_percentage_witness:
  "length [JInt 1, JInt 2, JInt 3] \<le> 10 ^ 9
   \<and> get_students alice_three_sessions =
       Inr (Students [\<lparr>sd_username = ''alice'', sd_name = ''Alice'',
         sd_attendance = JFloat (Fin 30), sd_class = ''10A'', sd_registerNumber = [],
         sd_mobileNumber = []\<rparr>], 200)"
proof -
  have h: "\<forall>a \<in> set (attendance_coll alice_three_sessions). length (attendance a) \<le> 10 ^ 9"
    by (simp add: alice_three_sessions_def)
  have "find_attendance alice_three_sessions ''alice''
          = Some \<lparr>att_username = ''alice'', attendance = [JInt 1, JInt 2, JInt 3]\<rparr>"
    by (simp add: find_attendance_def alice_three_sessions_def)
  with students_attendance_percentage [OF h] show ?thesis
    by (simp add: alice_three_sessions_def alice_db_eq)
qed

end
